theory Spec2Isabelle
  imports Main "HOL-Library.Sublist" "HOL-Library.AList"
begin

section \<open>Strings as the sync endpoint uses them\<close>

text \<open>
  The sync endpoint is JavaScript. Its strings are modelled as \<open>string\<close>, a \<open>char\<close>
  for a code unit below 256; letter case is handled within ASCII. A value that is a string or \<open>undefined\<close> is modelled as a string
  with \<open>[]\<close> for \<open>undefined\<close>: everywhere below the source either tests such a value
  for truthiness or replaces a falsy one by \<open>''\<close>, and \<open>undefined\<close> and \<open>''\<close> are
  both falsy.
\<close>

definition toLowerChar :: "char \<Rightarrow> char" where
  "toLowerChar c =
     (let n = (of_char c :: nat) in if 65 \<le> n \<and> n \<le> 90 then char_of (n + 32) else c)"

definition toUpperChar :: "char \<Rightarrow> char" where
  "toUpperChar c =
     (let n = (of_char c :: nat) in if 97 \<le> n \<and> n \<le> 122 then char_of (n - 32) else c)"

definition toLowerCase :: "string \<Rightarrow> string" where
  "toLowerCase s = map toLowerChar s"

text \<open>\<open>s.includes(sub)\<close>: \<open>sub\<close> occurs in \<open>s\<close> as a contiguous block.\<close>

fun includes_str :: "string \<Rightarrow> string \<Rightarrow> bool" where
  "includes_str [] sub = (sub = [])"
| "includes_str (c # cs) sub = (prefix sub (c # cs) \<or> includes_str cs sub)"

text \<open>
  White space of \<open>trim()\<close> and of \<open>\s\<close> among the code units a \<open>char\<close> holds: tab,
  line feed, vertical tab, form feed, carriage return, space, and the no-break space
  U+00A0.
\<close>

definition isSpace :: "char \<Rightarrow> bool" where
  "isSpace c = ((of_char c :: nat) \<in> {9, 10, 11, 12, 13, 32, 160})"

definition trim :: "string \<Rightarrow> string" where
  "trim s = dropWhile isSpace (rev (dropWhile isSpace (rev s)))"

text \<open>\<open>\w\<close> of a regular expression, and the line terminators that \<open>.\<close> refuses.\<close>

definition isWordChar :: "char \<Rightarrow> bool" where
  "isWordChar c =
     (let n = (of_char c :: nat)
      in (48 \<le> n \<and> n \<le> 57) \<or> (65 \<le> n \<and> n \<le> 90) \<or> (97 \<le> n \<and> n \<le> 122) \<or> n = 95)"

definition isLineTerminator :: "char \<Rightarrow> bool" where
  "isLineTerminator c = ((of_char c :: nat) \<in> {10, 13})"

section \<open>The process environment\<close>

text \<open>The variables of \<open>process.env\<close> that the endpoint reads; \<open>[]\<close> is an unset one.\<close>

record env =
  GOOGLE_SERVICE_EMAIL :: string
  OPENAI_API_KEY :: string
  GEMINI_API_KEY :: string
  CRON_SECRET :: string

section \<open>The exclusion policy\<close>

definition skipDomains :: "string list" where
  "skipDomains = [''@noreply.com'', ''@notifications.'', ''@calendly.com'', ''@zoom.us'',
     ''@teams.microsoft.com'', ''@meet.google.com'']"

definition shouldSkipEmail :: "env \<Rightarrow> string \<Rightarrow> bool" where
  "shouldSkipEmail e email =
     (if email = [] then True
      else let emailLower = toLowerCase email in
        if includes_str emailLower ''@viehq.com'' \<or> emailLower = ''fred@fireflies.ai''
           \<or> emailLower = toLowerCase (GOOGLE_SERVICE_EMAIL e)
        then True
        else if list_ex (\<lambda>domain. includes_str emailLower domain) skipDomains then True
        else False)"

section \<open>The event selector\<close>

text \<open>
  A calendar event as the endpoint reads it: \<open>attendees\<close> holds \<open>a.email\<close> of each
  attendee in order (an event without attendees has none), \<open>start_dateTime\<close> and
  \<open>start_date\<close> are \<open>event.start?.dateTime\<close> and \<open>event.start?.date\<close>.
\<close>

record event =
  summary :: string
  description :: string
  organizerEmail :: string
  attendees :: "string list"
  start_dateTime :: string
  start_date :: string

definition keywords_list :: "string list" where
  "keywords_list = [''investor'', ''pitch'', ''intro'', ''funding'', ''vc'', ''investment'', ''demo'',
     ''meeting'', ''vie'', ''capital'', ''ventures'', ''fund'', ''consultation'', ''session'',
     ''call'', ''sync'', ''discussion'']"

text \<open>\<open>/\bfund\b/i\<close> on a lower-cased text: \<open>fund\<close> between two word boundaries.\<close>

fun fundWord :: "bool \<Rightarrow> string \<Rightarrow> bool" where
  "fundWord prevWord [] = False"
| "fundWord prevWord (c # cs) =
     ((\<not> prevWord \<and> prefix ''fund'' (c # cs)
         \<and> (case drop 4 (c # cs) of [] \<Rightarrow> True | d # _ \<Rightarrow> \<not> isWordChar d))
      \<or> fundWord (isWordChar c) cs)"

text \<open>\<open>/@.*pat/i\<close> on a lower-cased text: an \<open>@\<close>, then \<open>pat\<close> later on the same line.\<close>

fun atThen :: "string \<Rightarrow> string \<Rightarrow> bool" where
  "atThen pat [] = False"
| "atThen pat (c # cs) =
     ((c = CHR ''@'' \<and> includes_str (takeWhile (\<lambda>d. \<not> isLineTerminator d) cs) pat)
      \<or> atThen pat cs)"

text \<open>
  The nine patterns of \<open>vcPatterns\<close>, each as its test on a text. The patterns carry the
  flag \<open>i\<close>, so each test lower-cases its input first.
\<close>

definition vcPatterns :: "(string \<Rightarrow> bool) list" where
  "vcPatterns =
     [\<lambda>s. includes_str (toLowerCase s) ''venture'',
      \<lambda>s. includes_str (toLowerCase s) ''capital'',
      \<lambda>s. fundWord False (toLowerCase s),
      \<lambda>s. includes_str (toLowerCase s) ''partner'',
      \<lambda>s. includes_str (toLowerCase s) ''investment'',
      \<lambda>s. includes_str (toLowerCase s) ''.vc'',
      \<lambda>s. atThen ''ventures'' (toLowerCase s),
      \<lambda>s. atThen ''capital'' (toLowerCase s),
      \<lambda>s. atThen ''fund'' (toLowerCase s)]"

definition hasKeywords :: "event \<Rightarrow> bool" where
  "hasKeywords ev =
     (let title = toLowerCase (summary ev); descr = toLowerCase (description ev)
      in list_ex (\<lambda>k. includes_str title k \<or> includes_str descr k) keywords_list)"

definition lowerAttendees :: "event \<Rightarrow> string list" where
  "lowerAttendees ev = filter (\<lambda>a. a \<noteq> []) (map toLowerCase (attendees ev))"

definition hasVCPatterns :: "event \<Rightarrow> bool" where
  "hasVCPatterns ev =
     (let title = toLowerCase (summary ev); descr = toLowerCase (description ev);
          attendeeEmails = lowerAttendees ev; organizer = toLowerCase (organizerEmail ev)
      in list_ex (\<lambda>p. p title \<or> p descr \<or> list_ex p attendeeEmails \<or> p organizer) vcPatterns)"

definition hasBizAttendees :: "event \<Rightarrow> bool" where
  "hasBizAttendees ev =
     list_ex (\<lambda>a. \<not> includes_str a ''viehq.com'' \<and> \<not> includes_str a ''gmail.com''
                  \<and> \<not> includes_str a ''yahoo.com'' \<and> \<not> includes_str a ''hotmail.com''
                  \<and> includes_str a ''@'')
       (lowerAttendees ev)"

definition matchesFilter :: "event \<Rightarrow> bool" where
  "matchesFilter ev = (hasKeywords ev \<or> hasVCPatterns ev \<or> hasBizAttendees ev)"

text \<open>
  \<open>getCalendarEvents\<close>: the calendar's answer is \<open>Inl\<close> the message of the exception the
  request raised, or \<open>Inr\<close> the events of the window in ascending start order.
\<close>

definition getCalendarEvents :: "string + event list \<Rightarrow> string + event list" where
  "getCalendarEvents response =
     (case response of Inl msg \<Rightarrow> Inl msg | Inr allEvents \<Rightarrow> Inr (filter matchesFilter allEvents))"

section \<open>The insight extractor\<close>

text \<open>
  A value that \<open>JSON.parse\<close> returns. The members of an object are its own properties,
  each key once. Numbers are kept as integers: below, only whether one is zero matters.
\<close>

datatype json = JNull | JBool bool | JNum int | JStr string | JArr "json list"
  | JObj "(string \<times> json) list"

fun truthy :: "json \<Rightarrow> bool" where
  "truthy JNull = False"
| "truthy (JBool b) = b"
| "truthy (JNum n) = (n \<noteq> 0)"
| "truthy (JStr s) = (s \<noteq> [])"
| "truthy (JArr xs) = True"
| "truthy (JObj kv) = True"

text \<open>An Insight: what \<open>analyzeWithAI\<close> returns, over the type of its field values.\<close>

record 'v insight =
  status :: 'v
  nextStep :: 'v
  "notes" :: 'v

datatype aiClient = OpenAI | Gemini

definition getAIClient :: "env \<Rightarrow> string + aiClient" where
  "getAIClient e =
     (if OPENAI_API_KEY e \<noteq> [] then Inr OpenAI
      else if GEMINI_API_KEY e \<noteq> [] then Inr Gemini
      else Inl ''No AI API key configured'')"

definition nl :: string where
  "nl = [CHR 0x0A]"

fun splitOn :: "char \<Rightarrow> string \<Rightarrow> string list" where
  "splitOn d [] = [[]]"
| "splitOn d (c # cs) =
     (if c = d then [] # splitOn d cs
      else (case splitOn d cs of [] \<Rightarrow> [[c]] | w # ws \<Rightarrow> (c # w) # ws))"

fun joinWith :: "string \<Rightarrow> string list \<Rightarrow> string" where
  "joinWith sep [] = []"
| "joinWith sep [w] = w"
| "joinWith sep (w # v # ws) = w @ sep @ joinWith sep (v # ws)"

definition capitalize :: "string \<Rightarrow> string" where
  "capitalize w = (case w of [] \<Rightarrow> [] | c # cs \<Rightarrow> toUpperChar c # cs)"

definition getNameFromEmail :: "string \<Rightarrow> string" where
  "getNameFromEmail email =
     (if email = [] \<or> \<not> includes_str email ''@'' then ''Unknown Name''
      else let localPart = hd (splitOn (CHR ''@'') email);
               spaced = map (\<lambda>c. if c = CHR ''.'' \<or> c = CHR ''_'' \<or> c = CHR ''-'' then CHR '' '' else c)
                          localPart
           in joinWith '' '' (map capitalize (splitOn (CHR '' '') spaced)))"

definition buildPrompt :: "string \<Rightarrow> string \<Rightarrow> string \<Rightarrow> string" where
  \<open>buildPrompt notesContent contactNameToUse sourceType =
     (if sourceType = ''Fireflies API'' \<or> sourceType = ''Fireflies Email'' then
        joinWith nl
          [''Analyze this Fireflies meeting content for CRM. Contact: '' @ contactNameToUse @ ''.'',
           ''Extract:'',
           ''1. Investment interest/sentiment (e.g., 'High Interest', 'Passed').'',
           ''2. Specific next actions/commitments.'',
           ''3. Key concerns, requirements, objections.'',
           ''4. Decision timelines or funding amounts.'',
           ''5. Other critical CRM notes.'',
           ''Output JSON: {"status": "...", "nextStep": "...", "notes": "..."} (combine 3,4,5 into notes, max 300 chars).'',
           ''Content (max 7000 chars):'',
           ''---'',
           take 7000 notesContent,
           ''---'']
      else
        joinWith nl
          [''Summarize meeting content for CRM. Contact: '' @ contactNameToUse @ ''.'',
           ''Extract:'',
           ''1. Investment status (e.g., 'Interested', 'Passed').'',
           ''2. Single most important next step.'',
           ''3. Brief summary of key points (max 300 chars for notes).'',
           ''Output JSON: {"status": "...", "nextStep": "...", "notes": "..."}.'',
           ''Content (max 7000 chars):'',
           ''---'',
           take 7000 notesContent,
           ''---''])\<close>

text \<open>
  \<open>text.replace(/^```json\s*|```\s*$/g, '')\<close>: an opening fence at the very start goes
  with the white space after it, then the leftmost closing fence that only white space
  follows goes with that white space.
\<close>

fun dropFenceEnd :: "string \<Rightarrow> string" where
  "dropFenceEnd [] = []"
| "dropFenceEnd (c # cs) =
     (if prefix ''```'' (c # cs) \<and> list_all isSpace (drop 3 (c # cs)) then []
      else c # dropFenceEnd cs)"

definition stripFence :: "string \<Rightarrow> string" where
  "stripFence s =
     dropFenceEnd (if prefix ''```json'' s then dropWhile isSpace (drop 7 s) else s)"

text \<open>
  \<open>text.match(/{[\s\S]*}/)\<close>: from the first opening brace to the last closing brace
  after it; no match when either is missing.
\<close>

definition matchObject :: "string \<Rightarrow> string option" where
  "matchObject s =
     (case dropWhile (\<lambda>c. c \<noteq> CHR ''{'') s of
        [] \<Rightarrow> None
      | b # t \<Rightarrow>
          (case rev (dropWhile (\<lambda>c. c \<noteq> CHR ''}'') (rev t)) of
             [] \<Rightarrow> None
           | r \<Rightarrow> Some (b # r)))"

text \<open>\<open>pA.key || dflt\<close> for a parsed value \<open>pA\<close> other than \<open>null\<close>.\<close>

definition fieldOr :: "json \<Rightarrow> string \<Rightarrow> string \<Rightarrow> json" where
  "fieldOr pA key dflt =
     (case (case pA of JObj kv \<Rightarrow> map_of kv key | _ \<Rightarrow> None) of
        None \<Rightarrow> JStr dflt
      | Some v \<Rightarrow> if truthy v then v else JStr dflt)"

text \<open>
  The last line of the \<open>try\<close> block: reading a property of \<open>null\<close> raises a TypeError
  (the message is the one of Node.js).
\<close>

definition insightOf :: "json \<Rightarrow> string + json insight" where
  \<open>insightOf pA =
     (if pA = JNull then Inl ''Cannot read properties of null (reading 'status')''
      else Inr \<lparr>status = fieldOr pA ''status'' ''Manual Review'',
                nextStep = fieldOr pA ''nextStep'' ''Review AI'',
                notes = fieldOr pA ''notes'' ''AI notes missing.''\<rparr>)\<close>

text \<open>
  What the \<open>try\<close> block does with the model's text. \<open>JSON_parse\<close> is the platform's
  \<open>JSON.parse\<close>: \<open>Inl\<close> is the message of the SyntaxError it raises.
\<close>

definition parseAnalysis :: "(string \<Rightarrow> string + json) \<Rightarrow> string \<Rightarrow> string + json insight" where
  "parseAnalysis JSON_parse analysisResultText =
     (if analysisResultText = [] then Inl ''AI response empty.''
      else case JSON_parse (trim (stripFence analysisResultText)) of
        Inr pA \<Rightarrow> insightOf pA
      | Inl _ \<Rightarrow>
          (case matchObject analysisResultText of
             Some m \<Rightarrow> (case JSON_parse m of Inl msg \<Rightarrow> Inl msg | Inr pA \<Rightarrow> insightOf pA)
           | None \<Rightarrow> Inl ''AI response not valid JSON.''))"

definition failedInsight :: "string \<Rightarrow> json insight" where
  "failedInsight msg =
     \<lparr>status = JStr ''Manual Review'', nextStep = JStr ''Review AI'',
      notes = JStr (''AI failed: '' @ msg)\<rparr>"

definition insufficientInsight :: "string \<Rightarrow> json insight" where
  "insufficientInsight sourceType =
     \<lparr>status = JStr ''Manual Review Needed'', nextStep = JStr ''Insufficient content for AI'',
      notes = JStr (''No meaningful content from '' @ sourceType @ ''.'')\<rparr>"

text \<open>
  The rest of the \<open>try\<close> block once the request to the model is over, and the \<open>catch\<close>
  around it: \<open>answer\<close> is \<open>Inl\<close> the message when the request raised, \<open>Inr\<close> the text
  of the answer (\<open>[]\<close> when there is none).
\<close>

definition afterCompletion :: "(string \<Rightarrow> string + json) \<Rightarrow> string + string \<Rightarrow> json insight" where
  "afterCompletion JSON_parse answer =
     (case answer of
        Inl msg \<Rightarrow> failedInsight msg
      | Inr analysisResultText \<Rightarrow>
          (case parseAnalysis JSON_parse analysisResultText of
             Inl msg \<Rightarrow> failedInsight msg
           | Inr result \<Rightarrow> result))"

text \<open>
  \<open>analyzeWithAI\<close>. \<open>complete client prompt\<close> is the language-model service. The result
  is \<open>Inl\<close> the message when \<open>analyzeWithAI\<close> itself raises, \<open>Inr\<close> the Insight it
  returns; the second component counts the requests made to the service.
\<close>

definition analyzeWithAI ::
  "env \<Rightarrow> (aiClient \<Rightarrow> string \<Rightarrow> string + string) \<Rightarrow> (string \<Rightarrow> string + json)
     \<Rightarrow> string \<Rightarrow> string \<Rightarrow> string \<Rightarrow> (string + json insight) \<times> nat" where
  "analyzeWithAI e complete JSON_parse notesContent contactName sourceType =
     (if notesContent = [] \<or> length (trim notesContent) < 20
      then (Inr (insufficientInsight sourceType), 0)
      else case getAIClient e of
        Inl msg \<Rightarrow> (Inl msg, 0)
      | Inr aiClient \<Rightarrow>
          let contactNameToUse =
                (if contactName \<noteq> [] then contactName else getNameFromEmail contactName);
              prompt = buildPrompt notesContent contactNameToUse sourceType
          in if OPENAI_API_KEY e \<noteq> [] then
               (Inr (afterCompletion JSON_parse (complete aiClient prompt)), 1)
             else if GEMINI_API_KEY e \<noteq> [] then
               (Inr (afterCompletion JSON_parse (complete aiClient prompt)), 1)
             else (Inr (failedInsight ''No AI client configured.''), 0))"

text \<open>
  A small parser for flat JSON objects whose members are strings without escapes, with
  distinct keys. Where it answers \<open>Inr\<close> it gives the value \<open>JSON.parse\<close> gives, and it
  refuses every text that is not JSON. It stands for \<open>JSON.parse\<close> where a concrete
  parser is needed.
\<close>

definition jsonWs :: "char \<Rightarrow> bool" where
  "jsonWs c = ((of_char c :: nat) \<in> {9, 10, 13, 32})"

definition parseStringLit :: "string \<Rightarrow> (string \<times> string) option" where
  "parseStringLit s =
     (case s of
        [] \<Rightarrow> None
      | c # cs \<Rightarrow>
          if c \<noteq> CHR 0x22 then None
          else let body = takeWhile (\<lambda>d. d \<noteq> CHR 0x22) cs;
                   rest = dropWhile (\<lambda>d. d \<noteq> CHR 0x22) cs
               in if rest = [] \<or> list_ex (\<lambda>d. d = CHR 0x5C \<or> (of_char d :: nat) < 32) body
                  then None else Some (body, tl rest))"

fun parseMembers :: "nat \<Rightarrow> string \<Rightarrow> ((string \<times> json) list \<times> string) option" where
  "parseMembers 0 s = None"
| "parseMembers (Suc n) s =
     (case parseStringLit (dropWhile jsonWs s) of
        None \<Rightarrow> None
      | Some (k, r1) \<Rightarrow>
          (case dropWhile jsonWs r1 of
             [] \<Rightarrow> None
           | c # r2 \<Rightarrow>
               if c \<noteq> CHR '':'' then None
               else (case parseStringLit (dropWhile jsonWs r2) of
                       None \<Rightarrow> None
                     | Some (v, r3) \<Rightarrow>
                         (case dropWhile jsonWs r3 of
                            [] \<Rightarrow> None
                          | d # r4 \<Rightarrow>
                              if d = CHR ''}'' then Some ([(k, JStr v)], r4)
                              else if d = CHR '','' then
                                (case parseMembers n r4 of
                                   None \<Rightarrow> None
                                 | Some (kv, r5) \<Rightarrow> Some ((k, JStr v) # kv, r5))
                              else None))))"

definition parseFlatObject :: "string \<Rightarrow> string + json" where
  "parseFlatObject s =
     (case dropWhile jsonWs s of
        [] \<Rightarrow> Inl ''Unexpected end of JSON input''
      | c # r \<Rightarrow>
          if c \<noteq> CHR ''{'' then Inl ''Unexpected token in JSON''
          else (case parseMembers (length r) r of
                  None \<Rightarrow> Inl ''Unexpected token in JSON''
                | Some (kv, rest) \<Rightarrow>
                    if list_all jsonWs rest \<and> distinct (map fst kv) then Inr (JObj kv)
                    else Inl ''Unexpected token in JSON''))"

section \<open>Contacts and the sheet\<close>

text \<open>
  A contact carries the three fields of an Insight, as text, and four fields of its own.
  An absent \<open>lastMeeting\<close> is \<open>[]\<close>.
\<close>

record contact = "string insight" +
  name :: string
  email :: string
  lastMeeting :: string
  createdAt :: string

text \<open>\<open>a || b\<close> on texts.\<close>

definition orElse :: "string \<Rightarrow> string \<Rightarrow> string" where
  "orElse a b = (if a \<noteq> [] then a else b)"

text \<open>
  Dates. \<open>Date_parse\<close> is the platform's reading of a date text: \<open>None\<close> is the invalid
  date. \<open>newDate\<close> is \<open>new Date(x)\<close> for a text or \<open>undefined\<close>, \<open>newDateOr0\<close> is
  \<open>new Date(x || 0)\<close>, and \<open>dateGt a b\<close> is \<open>a > b\<close> on two dates, which is false as
  soon as one of them is invalid.
\<close>

definition newDate :: "(string \<Rightarrow> int option) \<Rightarrow> string \<Rightarrow> int option" where
  "newDate Date_parse x = (if x = [] then None else Date_parse x)"

definition newDateOr0 :: "(string \<Rightarrow> int option) \<Rightarrow> string \<Rightarrow> int option" where
  "newDateOr0 Date_parse x = (if x = [] then Some 0 else Date_parse x)"

definition dateGt :: "int option \<Rightarrow> int option \<Rightarrow> bool" where
  "dateGt a b =
     (case a of None \<Rightarrow> False | Some x \<Rightarrow> (case b of None \<Rightarrow> False | Some y \<Rightarrow> y < x))"

text \<open>
  The store: the rows of the range \<open>Contacts!A:G\<close>, the header row first, and the cell
  \<open>Contacts!H1\<close> that holds the time of the last sync.
\<close>

record store =
  rows :: "string list list"
  syncCell :: string

text \<open>
  What is outside the endpoint during one run. \<open>authorize\<close>, \<open>sheetRead\<close>,
  \<open>sheetWrite\<close> and \<open>timestampWrite\<close> hold the message of the exception when that
  request raises. \<open>getMeetingNotes email meetingDate meetingTitle\<close> is the outcome of the
  notes resolver, content and source, \<open>None\<close> also when it raises. \<open>analyze content contactName source\<close> is what
  \<open>await analyzeWithAI(...)\<close> gives the handler: \<open>Inl\<close> the message when it raises,
  \<open>Inr\<close> the Insight, its fields read as text. \<open>now\<close> is the clock's ISO text.
\<close>

record world =
  Date_parse :: "string \<Rightarrow> int option"
  authorize :: "string option"
  calendarResponse :: "string + event list"
  sheetRead :: "string option"
  sheetWrite :: "string option"
  timestampWrite :: "string option"
  getMeetingNotes :: "string \<Rightarrow> string \<Rightarrow> string \<Rightarrow> (string \<times> string) option"
  analyze :: "string \<Rightarrow> string \<Rightarrow> string \<Rightarrow> string + string insight"
  now :: string

definition cell :: "string list \<Rightarrow> nat \<Rightarrow> string" where
  "cell row i = (if i < length row then row ! i else [])"

definition rowContact :: "string list \<Rightarrow> contact" where
  "rowContact row =
     \<lparr>status = cell row 2, nextStep = cell row 3, notes = cell row 4,
      name = cell row 0, email = cell row 1, lastMeeting = cell row 5, createdAt = cell row 6\<rparr>"

text \<open>
  Modelled from the spec: the Contact Store's \<open>readAll\<close> (the sheet service is outside
  the repository) gives the rows the store holds, or raises. \<open>getSheetContacts\<close> reads
  through it, and the \<open>catch\<close> of the source turns a raised read into no contacts.
\<close>

definition getSheetContacts :: "env \<Rightarrow> world \<Rightarrow> store \<Rightarrow> contact list" where
  "getSheetContacts e w st =
     (case sheetRead w of
        Some msg \<Rightarrow> []
      | None \<Rightarrow>
          if length (rows st) \<le> 1 then []
          else filter (\<lambda>c. email c \<noteq> [] \<and> \<not> shouldSkipEmail e (email c))
                 (map rowContact (tl (rows st))))"

text \<open>
  A JavaScript \<open>Map\<close> from emails to contacts, as the list of its entries in insertion
  order; \<open>mapSet\<close> on a key that is present replaces the value where it stands.
\<close>

definition mapSet :: "(string \<times> contact) list \<Rightarrow> string \<Rightarrow> contact \<Rightarrow> (string \<times> contact) list" where
  "mapSet m k v = AList.update k v m"

definition uniqueStep ::
  "env \<Rightarrow> world \<Rightarrow> (string \<times> contact) list \<Rightarrow> contact \<Rightarrow> (string \<times> contact) list" where
  "uniqueStep e w uniqueContacts c =
     (if email c \<noteq> [] \<and> \<not> shouldSkipEmail e (email c) then
        (case map_of uniqueContacts (email c) of
           Some ex \<Rightarrow>
             if dateGt (newDateOr0 (Date_parse w) (lastMeeting c))
                       (newDateOr0 (Date_parse w) (lastMeeting ex))
             then mapSet uniqueContacts (email c) c else uniqueContacts
         | None \<Rightarrow> mapSet uniqueContacts (email c) c)
      else uniqueContacts)"

definition cleanedContacts :: "env \<Rightarrow> world \<Rightarrow> contact list \<Rightarrow> contact list" where
  "cleanedContacts e w contacts = map snd (foldl (uniqueStep e w) [] contacts)"

definition headerRow :: "string list" where
  "headerRow = [''Name'', ''Email'', ''Status'', ''Next Step'', ''Notes'', ''Last Meeting'',
     ''Created At'']"

definition contactRow :: "contact \<Rightarrow> string list" where
  "contactRow c = [name c, email c, status c, nextStep c, notes c, lastMeeting c, createdAt c]"

text \<open>
  Modelled from the spec: the Contact Store's \<open>writeAll\<close> (the sheet service is outside
  the repository) persists the whole range: the rows written become the rows of the
  store, or the request raises and the store keeps its rows. \<open>updateSheetContacts\<close>
  writes through it, and a raised write leaves \<open>updateSheetContacts\<close> as it is raised.
\<close>

definition updateSheetContacts :: "env \<Rightarrow> world \<Rightarrow> contact list \<Rightarrow> store \<Rightarrow> string + store" where
  "updateSheetContacts e w contacts st =
     (let values = headerRow # map contactRow (cleanedContacts e w contacts)
      in case sheetWrite w of
           Some msg \<Rightarrow> Inl msg
         | None \<Rightarrow> Inr (st\<lparr>rows := values\<rparr>))"

definition recordSyncTimestamp :: "world \<Rightarrow> store \<Rightarrow> store" where
  "recordSyncTimestamp w st =
     (case timestampWrite w of Some msg \<Rightarrow> st | None \<Rightarrow> st\<lparr>syncCell := now w\<rparr>)"

section \<open>The sync handler\<close>

definition evStart :: "event \<Rightarrow> string" where
  "evStart ev = orElse (start_dateTime ev) (start_date ev)"

definition attendeeEmails :: "event \<Rightarrow> string list" where
  "attendeeEmails ev = filter (\<lambda>a. a \<noteq> []) (attendees ev)"

definition newContact :: "world \<Rightarrow> event \<Rightarrow> string \<Rightarrow> contact" where
  "newContact w ev em =
     \<lparr>status = ''New Contact'', nextStep = ''Initial outreach'', notes = [],
      name = getNameFromEmail em, email = em, lastMeeting = evStart ev, createdAt = now w\<rparr>"

definition applyAnalysis :: "world \<Rightarrow> event \<Rightarrow> string \<Rightarrow> contact \<Rightarrow> contact" where
  "applyAnalysis w ev em c =
     (case getMeetingNotes w em (start_dateTime ev) (summary ev) of
        None \<Rightarrow> c
      | Some (content, source) \<Rightarrow>
          (case analyze w content (orElse (name c) em) source of
             Inl msg \<Rightarrow> c
           | Inr analysis \<Rightarrow>
               c\<lparr>status := orElse (status analysis) (status c),
                  nextStep := orElse (nextStep analysis) (nextStep c),
                  notes := orElse (notes analysis) (notes c)\<rparr>))"

definition bumpLastMeeting :: "world \<Rightarrow> event \<Rightarrow> contact \<Rightarrow> contact" where
  "bumpLastMeeting w ev c =
     (if dateGt (newDate (Date_parse w) (evStart ev)) (newDateOr0 (Date_parse w) (lastMeeting c))
      then c\<lparr>lastMeeting := evStart ev\<rparr> else c)"

text \<open>
  The body of the loop over the attendee emails of one event. A contact found among the
  existing ones is the stored object itself; it is looked up once per email and run, so
  changing it in place is not seen by any later lookup.
\<close>

definition contactFor :: "world \<Rightarrow> contact list \<Rightarrow> event \<Rightarrow> string \<Rightarrow> contact" where
  "contactFor w existingContacts ev em =
     (case find (\<lambda>c. email c = em) existingContacts of
        Some c \<Rightarrow> c
      | None \<Rightarrow> newContact w ev em)"

definition processEmail ::
  "env \<Rightarrow> world \<Rightarrow> contact list \<Rightarrow> event \<Rightarrow> (string \<times> contact) list \<Rightarrow> string
     \<Rightarrow> (string \<times> contact) list" where
  "processEmail e w existingContacts ev processedContacts em =
     (if shouldSkipEmail e em then processedContacts
      else case map_of processedContacts em of
        Some exContact \<Rightarrow> mapSet processedContacts em (bumpLastMeeting w ev exContact)
      | None \<Rightarrow>
          let contact = contactFor w existingContacts ev em
          in mapSet processedContacts em (bumpLastMeeting w ev (applyAnalysis w ev em contact)))"

text \<open>
  One event. With events and contacts of the types above nothing in the loop raises
  beyond what \<open>applyAnalysis\<close> absorbs, so the \<open>catch\<close> around an event is never entered.
\<close>

definition processEvent ::
  "env \<Rightarrow> world \<Rightarrow> contact list \<Rightarrow> (string \<times> contact) list \<Rightarrow> event
     \<Rightarrow> (string \<times> contact) list" where
  "processEvent e w existingContacts processedContacts ev =
     foldl (processEmail e w existingContacts ev) processedContacts (attendeeEmails ev)"

definition processEvents ::
  "env \<Rightarrow> world \<Rightarrow> contact list \<Rightarrow> event list \<Rightarrow> (string \<times> contact) list" where
  "processEvents e w existingContacts calendarEvents =
     foldl (processEvent e w existingContacts) [] calendarEvents"

datatype response =
    Unauthorized
  | MethodNotAllowed
  | SyncCompleted (contactsProcessed: nat) (eventsProcessed: nat) (timestamp: string)
  | SyncFailed (message: string) (timestamp: string)

record request =
  x_cron_secret :: string
  body_cronSecret :: string
  req_method :: string

text \<open>The \<open>try\<close> block of the handler and its \<open>catch\<close>: one run of the sync.\<close>

definition runSync :: "env \<Rightarrow> world \<Rightarrow> store \<Rightarrow> response \<times> store" where
  "runSync e w st =
     (case authorize w of
        Some msg \<Rightarrow> (SyncFailed msg (now w), st)
      | None \<Rightarrow>
          (case getCalendarEvents (calendarResponse w) of
             Inl msg \<Rightarrow> (SyncFailed msg (now w), st)
           | Inr calendarEvents \<Rightarrow>
               let existingContacts = getSheetContacts e w st;
                   updatedContacts = map snd (processEvents e w existingContacts calendarEvents)
               in if updatedContacts \<noteq> [] then
                    (case updateSheetContacts e w updatedContacts st of
                       Inl msg \<Rightarrow> (SyncFailed msg (now w), st)
                     | Inr st' \<Rightarrow>
                         (SyncCompleted (length updatedContacts) (length calendarEvents) (now w),
                          recordSyncTimestamp w st'))
                  else (SyncCompleted (length updatedContacts) (length calendarEvents) (now w),
                        recordSyncTimestamp w st)))"

definition handler :: "env \<Rightarrow> world \<Rightarrow> request \<Rightarrow> store \<Rightarrow> response \<times> store" where
  "handler e w req st =
     (let cronSecret = orElse (x_cron_secret req) (body_cronSecret req)
      in if cronSecret = [] \<or> cronSecret \<noteq> CRON_SECRET e then (Unauthorized, st)
         else if req_method req \<noteq> ''POST'' then (MethodNotAllowed, st)
         else runSync e w st)"

section \<open>Times, observations and invariants of a run\<close>



text \<open>The email column of the contacts the store holds.\<close>

definition storeEmails :: "store \<Rightarrow> string list" where
  "storeEmails st = map (\<lambda>row. cell row 1) (tl (rows st))"





text \<open>The part of it that needs nothing of the dates.\<close>

definition keyed :: "env \<Rightarrow> (string \<times> contact) list \<Rightarrow> bool" where
  "keyed e m \<longleftrightarrow>
     distinct (map fst m) \<and> (\<forall>(k, c) \<in> set m. email c = k \<and> \<not> shouldSkipEmail e k)"


section \<open>A concrete setting\<close>

text \<open>
  An environment, a calendar of two calls with the same investor, notes for each call and
  the Insight drawn from each, used for the concrete runs below. \<open>demoDates\<close> reads the
  three timestamps that occur, as milliseconds since the epoch.
\<close>

definition demoEnv :: env where
  "demoEnv = \<lparr>GOOGLE_SERVICE_EMAIL = ''sync@crm.iam.gserviceaccount.com'',
     OPENAI_API_KEY = ''sk-test'', GEMINI_API_KEY = [], CRON_SECRET = ''s3cret''\<rparr>"

definition demoDates :: "string \<Rightarrow> int option" where
  "demoDates = map_of [(''2024-04-01T10:00:00Z'', 1711965600000),
     (''2024-05-06T09:00:00Z'', 1714986000000), (''2024-05-07T15:00:00Z'', 1715094000000)]"

definition introCall :: event where
  "introCall = \<lparr>summary = ''Intro call with Acme Ventures'', description = [],
     organizerEmail = ''jake@viehq.com'',
     attendees = [''jake@viehq.com'', ''jane@acmeventures.com''],
     start_dateTime = ''2024-05-06T09:00:00Z'', start_date = []\<rparr>"

definition followUp :: event where
  "followUp = \<lparr>summary = ''Follow-up call with Acme Ventures'', description = [],
     organizerEmail = ''jake@viehq.com'',
     attendees = [''jake@viehq.com'', ''jane@acmeventures.com''],
     start_dateTime = ''2024-05-07T15:00:00Z'', start_date = []\<rparr>"


definition demoNotes :: "string \<Rightarrow> string \<Rightarrow> string \<Rightarrow> (string \<times> string) option" where
  "demoNotes em meetingDate meetingTitle =
     (if meetingDate = ''2024-05-06T09:00:00Z''
      then Some (''Jane liked the deck and asked for the data room.'', ''Gmail'')
      else if meetingDate = ''2024-05-07T15:00:00Z''
      then Some (''Jane said the fund passes on this round.'', ''Gmail'')
      else None)"

definition insight1 :: "string insight" where
  "insight1 = \<lparr>status = ''Interested'', nextStep = ''Send data room'', notes = ''Liked the deck''\<rparr>"

definition insight2 :: "string insight" where
  "insight2 = \<lparr>status = ''Rejected'', nextStep = ''Close out'', notes = ''Passes on this round''\<rparr>"

definition demoAnalyze :: "string \<Rightarrow> string \<Rightarrow> string \<Rightarrow> string + string insight" where
  "demoAnalyze content contactName source =
     (if content = ''Jane liked the deck and asked for the data room.'' then Inr insight1
      else if content = ''Jane said the fund passes on this round.'' then Inr insight2
      else Inl ''No AI API key configured'')"

definition demoWorld :: world where
  "demoWorld = \<lparr>Date_parse = demoDates, authorize = None,
     calendarResponse = Inr [introCall, followUp], sheetRead = None, sheetWrite = None,
     timestampWrite = None, getMeetingNotes = demoNotes, analyze = demoAnalyze,
     now = ''2024-05-08T00:00:00.000Z''\<rparr>"

definition janeRow :: "string list" where
  "janeRow = [''Jane Doe'', ''jane@acmeventures.com'', ''Follow-up'', ''Send deck'', ''Met at demo day'',
     ''2024-04-01T10:00:00Z'', ''2024-03-01T08:00:00.000Z'']"

definition aliceRow :: "string list" where
  "aliceRow = [''Alice Ng'', ''alice@northfund.com'', ''Interested'', ''Send term sheet'', ''Warm'',
     ''2024-04-01T10:00:00Z'', ''2024-03-02T08:00:00.000Z'']"

definition fredRow :: "string list" where
  "fredRow = [''Fred'', ''fred@fireflies.ai'', ''New Contact'', ''Initial outreach'', [], [],
     ''2024-03-03T08:00:00.000Z'']"

definition demoStore :: store where
  "demoStore = \<lparr>rows = [headerRow, aliceRow, janeRow], syncCell = []\<rparr>"



section \<open>Properties of the event selector\<close>

text \<open>
  C10, as stated, fails on the code: the standup whose attendees are all at
  \<open>internalteam.com\<close> is selected, because the only domains the selector treats as not
  being a business counterparty are \<open>viehq.com\<close> and three consumer mail domains.
\<close>

theorem selector_internalteam_counterexample:
  "getCalendarEvents (Inr
     [\<lparr>summary = ''Weekly Team Standup'', description = [], organizerEmail = [],
       attendees = [''alice@internalteam.com'', ''bob@internalteam.com''],
       start_dateTime = ''2024-05-06T09:00:00Z'', start_date = []\<rparr>,
      \<lparr>summary = ''Intro call with Acme Ventures'', description = [], organizerEmail = [],
       attendees = [''jane@acmeventures.com''],
       start_dateTime = ''2024-05-07T15:00:00Z'', start_date = []\<rparr>])
   = Inr
     [\<lparr>summary = ''Weekly Team Standup'', description = [], organizerEmail = [],
       attendees = [''alice@internalteam.com'', ''bob@internalteam.com''],
       start_dateTime = ''2024-05-06T09:00:00Z'', start_date = []\<rparr>,
      \<lparr>summary = ''Intro call with Acme Ventures'', description = [], organizerEmail = [],
       attendees = [''jane@acmeventures.com''],
       start_dateTime = ''2024-05-07T15:00:00Z'', start_date = []\<rparr>]"
  by code_simp

text \<open>
  C10, amended: the selector excludes the event titled "Weekly Team Standup" when its
  attendees are all at the organisation's own domain \<open>viehq.com\<close>, and it includes the
  event titled "Intro call with Acme Ventures" with attendee \<open>jane@acmeventures.com\<close>.
\<close>

theorem selector_standup_and_intro:
  "getCalendarEvents (Inr
     [\<lparr>summary = ''Weekly Team Standup'', description = [], organizerEmail = [],
       attendees = [''alice@viehq.com'', ''bob@viehq.com''],
       start_dateTime = ''2024-05-06T09:00:00Z'', start_date = []\<rparr>,
      \<lparr>summary = ''Intro call with Acme Ventures'', description = [], organizerEmail = [],
       attendees = [''jane@acmeventures.com''],
       start_dateTime = ''2024-05-07T15:00:00Z'', start_date = []\<rparr>])
   = Inr
     [\<lparr>summary = ''Intro call with Acme Ventures'', description = [], organizerEmail = [],
       attendees = [''jane@acmeventures.com''],
       start_dateTime = ''2024-05-07T15:00:00Z'', start_date = []\<rparr>]"
  by code_simp

section \<open>Properties of the insight extractor\<close>

lemma length_trim_le: "length (trim s) \<le> length s"
proof -
  have "length (trim s) \<le> length (rev (dropWhile isSpace (rev s)))"
    unfolding trim_def by (rule length_dropWhile_le)
  also have "\<dots> \<le> length s"
    using length_dropWhile_le [of isSpace "rev s"] by simp
  finally show ?thesis .
qed

text \<open>
  C8: for every note text that is empty or shorter than 20 characters, \<open>analyzeWithAI\<close>
  returns the "insufficient content" Insight and makes no request to the language-model
  service.
\<close>

theorem analyzeWithAI_short_notes:
  "notesContent = [] \<or> length notesContent < 20 \<Longrightarrow>
   analyzeWithAI e complete JSON_parse notesContent contactName sourceType =
     (Inr \<lparr>status = JStr ''Manual Review Needed'',
            nextStep = JStr ''Insufficient content for AI'',
            notes = JStr (''No meaningful content from '' @ sourceType @ ''.'')\<rparr>, 0)"
  using length_trim_le [of notesContent]
  by (auto simp: analyzeWithAI_def insufficientInsight_def)

theorem analyzeWithAI_short_notes_witness:
  "(''Quick sync.'' = [] \<or> length ''Quick sync.'' < 20) \<and>
   analyzeWithAI \<lparr>GOOGLE_SERVICE_EMAIL = [], OPENAI_API_KEY = ''sk-test'', GEMINI_API_KEY = [],
       CRON_SECRET = []\<rparr> (\<lambda>client prompt. Inr ''{}'') parseFlatObject ''Quick sync.'' ''Jane''
       ''Gmail'' =
     (Inr \<lparr>status = JStr ''Manual Review Needed'',
            nextStep = JStr ''Insufficient content for AI'',
            notes = JStr ''No meaningful content from Gmail.''\<rparr>, 0)"
  using analyzeWithAI_short_notes [of "''Quick sync.''"
      "\<lparr>GOOGLE_SERVICE_EMAIL = [], OPENAI_API_KEY = ''sk-test'', GEMINI_API_KEY = [],
        CRON_SECRET = []\<rparr>" "\<lambda>client prompt. Inr ''{}''" parseFlatObject "''Jane''" "''Gmail''"]
  by simp

text \<open>
  C7 fails on the code at one input class: with a note text of 20 characters or more and
  neither API key set, \<open>getAIClient\<close> is called before the \<open>try\<close> block and its
  exception leaves \<open>analyzeWithAI\<close>; the branch of the \<open>try\<close> block meant for this case
  is never reached.
\<close>

theorem analyzeWithAI_raises_without_key:
  "analyzeWithAI
     \<lparr>GOOGLE_SERVICE_EMAIL = g, OPENAI_API_KEY = [], GEMINI_API_KEY = [], CRON_SECRET = s\<rparr>
     complete JSON_parse ''Met with Jane to discuss the seed round.'' ''Jane'' ''Gmail'' =
   (Inl ''No AI API key configured'', 0)"
  by (simp add: analyzeWithAI_def getAIClient_def trim_def isSpace_def)

text \<open>With a key set, \<open>analyzeWithAI\<close> returns an Insight whatever the service does.\<close>

lemma analyzeWithAI_returns_with_key:
  "OPENAI_API_KEY e \<noteq> [] \<or> GEMINI_API_KEY e \<noteq> [] \<Longrightarrow>
   \<exists>i n. analyzeWithAI e complete JSON_parse notesContent contactName sourceType = (Inr i, n)"
  by (auto simp: analyzeWithAI_def getAIClient_def Let_def)





section \<open>Properties of the merge\<close>

lemma applyAnalysis_keeps:
  "email (applyAnalysis w ev em c) = email c"
  "lastMeeting (applyAnalysis w ev em c) = lastMeeting c"
  "name (applyAnalysis w ev em c) = name c"
  "createdAt (applyAnalysis w ev em c) = createdAt c"
  by (auto simp: applyAnalysis_def split: option.splits sum.splits prod.splits)

lemma bumpLastMeeting_keeps:
  "email (bumpLastMeeting w ev c) = email c"
  "status (bumpLastMeeting w ev c) = status c"
  "nextStep (bumpLastMeeting w ev c) = nextStep c"
  "notes (bumpLastMeeting w ev c) = notes c"
  "name (bumpLastMeeting w ev c) = name c"
  "createdAt (bumpLastMeeting w ev c) = createdAt c"
  by (auto simp: bumpLastMeeting_def)


lemma find_email: "find (\<lambda>x. email x = k) xs = Some p \<Longrightarrow> email p = k \<and> p \<in> set xs"
  by (auto simp: find_Some_iff)

lemma contactFor_email: "email (contactFor w existing ev em) = em"
  by (auto simp: contactFor_def newContact_def split: option.splits dest: find_email)










lemma keyed_update:
  assumes "keyed e m" and "email c = k" and "\<not> shouldSkipEmail e k"
  shows "keyed e (mapSet m k c)"
proof -
  have "set (AList.update k c m) \<subseteq> insert (k, c) (set m)"
    by (induction m) auto
  then show ?thesis
    using assms unfolding keyed_def mapSet_def
    by (auto simp: AList.distinct_update)
qed

lemma keyed_lookup: "keyed e m \<Longrightarrow> map_of m k = Some c \<Longrightarrow> email c = k \<and> \<not> shouldSkipEmail e k"
  by (auto simp: keyed_def dest: map_of_SomeD)

lemma processEmail_keyed: "keyed e m \<Longrightarrow> keyed e (processEmail e w existing ev m em)"
  by (auto simp: processEmail_def bumpLastMeeting_keeps applyAnalysis_keeps contactFor_email
           split: option.splits intro!: keyed_update dest: keyed_lookup)

lemma emails_keyed: "keyed e m \<Longrightarrow> keyed e (foldl (processEmail e w existing ev) m ems)"
  by (induction ems arbitrary: m) (auto intro: processEmail_keyed)

lemma events_keyed: "keyed e m \<Longrightarrow> keyed e (foldl (processEvent e w existing) m evs)"
  by (induction evs arbitrary: m) (auto simp: processEvent_def intro: emails_keyed)

lemma processEvents_keyed: "keyed e (processEvents e w existing evs)"
  unfolding processEvents_def by (rule events_keyed) (simp add: keyed_def)

lemma uniqueStep_keyed: "keyed e u \<Longrightarrow> keyed e (uniqueStep e w u c)"
  by (auto simp: uniqueStep_def split: option.splits intro!: keyed_update)

lemma unique_keyed: "keyed e u \<Longrightarrow> keyed e (foldl (uniqueStep e w) u cs)"
  by (induction cs arbitrary: u) (auto intro: uniqueStep_keyed)

lemma update_fresh: "k \<notin> fst ` set al \<Longrightarrow> AList.update k v al = al @ [(k, v)]"
  by (induction al) auto

lemma unique_append:
  assumes "keyed e (u @ m)"
  shows "foldl (uniqueStep e w) u (map snd m) = u @ m"
  using assms
proof (induction m arbitrary: u)
  case Nil
  then show ?case by simp
next
  case (Cons kc m)
  obtain k c where kc: "kc = (k, c)" by (cases kc)
  have k: "email c = k" "\<not> shouldSkipEmail e k" "k \<notin> fst ` set u"
    using Cons.prems unfolding keyed_def kc by auto
  then have ne: "k \<noteq> []" by (auto simp: shouldSkipEmail_def)
  have "map_of u k = None" using k(3) by (simp add: map_of_eq_None_iff)
  then have step: "uniqueStep e w u c = u @ [(k, c)]"
    using k ne by (simp add: uniqueStep_def mapSet_def update_fresh)
  have "keyed e ((u @ [(k, c)]) @ m)" using Cons.prems kc by simp
  from Cons.IH [OF this] show ?case by (simp add: kc step)
qed

lemma cleaned_processed:
  "cleanedContacts e w (map snd (processEvents e w existing evs)) = map snd (processEvents e w existing evs)"
  using unique_append [of e "[]" "processEvents e w existing evs" w] processEvents_keyed [of e w existing evs]
  by (simp add: cleanedContacts_def)

lemma cleaned_keyed: "keyed e (foldl (uniqueStep e w) [] cs)"
  by (rule unique_keyed) (simp add: keyed_def)

lemma keyed_emails: "keyed e m \<Longrightarrow> map email (map snd m) = map fst m"
  by (induction m) (auto simp: keyed_def)























section \<open>Properties of a run\<close>

lemma cell_contactRow:
  "cell (contactRow c) 0 = name c" "cell (contactRow c) 1 = email c"
  "cell (contactRow c) 5 = lastMeeting c" "cell (contactRow c) 6 = createdAt c"
  by (simp_all add: cell_def contactRow_def)

lemma storeEmails_written:
  "rows st = headerRow # map contactRow cs \<Longrightarrow> storeEmails st = map email cs"
  by (simp add: storeEmails_def cell_def contactRow_def)

lemma rows_recordSyncTimestamp: "rows (recordSyncTimestamp w st) = rows st"
  by (simp add: recordSyncTimestamp_def split: option.splits)

text \<open>A request that carries the secret and is a POST is one run of the sync.\<close>

lemma handler_authorized:
  assumes "orElse (x_cron_secret req) (body_cronSecret req) = CRON_SECRET e"
    and "CRON_SECRET e \<noteq> []" and "req_method req = ''POST''"
  shows "handler e w req st = runSync e w st"
  using assms by (simp add: handler_def)

lemma runSync_rows:
  assumes "runSync e w st = (r, st')"
  shows "rows st' = rows st \<or>
         (\<exists>evs. getCalendarEvents (calendarResponse w) = Inr evs \<and>
            rows st' = headerRow # map contactRow
               (map snd (processEvents e w (getSheetContacts e w st) evs)))"
  using assms
  by (auto simp: runSync_def updateSheetContacts_def rows_recordSyncTimestamp cleaned_processed
                 Let_def
           split: option.splits sum.splits if_splits)


lemma processed_emails:
  "map email (map snd (processEvents e w existing evs)) = map fst (processEvents e w existing evs)"
  using processEvents_keyed by (rule keyed_emails)

lemma storeEmails_processed:
  assumes "rows st' = headerRow # map contactRow (map snd (processEvents e w existing evs))"
  shows "storeEmails st' = map fst (processEvents e w existing evs)"
proof -
  have "storeEmails st' = map email (map snd (processEvents e w existing evs))"
    using assms by (rule storeEmails_written)
  then show ?thesis by (simp only: processed_emails)
qed

text \<open>
  C2, amended: a run never writes a contact whose email matches the exclusion policy.
  If after a run the store holds a contact with such an email, the run has left the
  contact rows exactly as they were before it.
\<close>

theorem excluded_emails_never_written:
  assumes "runSync e w st = (r, st')"
    and "em \<in> set (storeEmails st')"
    and "shouldSkipEmail e em"
  shows "rows st' = rows st"
proof (rule ccontr)
  assume "rows st' \<noteq> rows st"
  with runSync_rows [OF assms(1)] obtain evs where
    rw: "rows st' = headerRow # map contactRow
           (map snd (processEvents e w (getSheetContacts e w st) evs))"
    by blast
  let ?m = "processEvents e w (getSheetContacts e w st) evs"
  have "storeEmails st' = map fst ?m"
    using rw by (rule storeEmails_processed)
  then obtain c where "(em, c) \<in> set ?m"
    using assms(2) by auto
  moreover have "keyed e ?m" by (rule processEvents_keyed)
  ultimately have "\<not> shouldSkipEmail e em"
    by (auto simp: keyed_def)
  then show False using assms(3) by simp
qed




text \<open>
  C6, amended: a failure of the event fetch is fatal, a failure of the store write is
  fatal, and every failed run leaves the store as it was. A failure of the store read is
  not fatal: the run goes on with no existing contacts, as on an empty store, and
  completes when the write does.
\<close>

theorem failures_of_a_run:
  "(authorize wF = None \<longrightarrow> calendarResponse wF = Inl msgF \<longrightarrow>
      runSync e wF st = (SyncFailed msgF (now wF), st))
 \<and> (authorize wW = None \<longrightarrow> getCalendarEvents (calendarResponse wW) = Inr evsW \<longrightarrow>
      processEvents e wW (getSheetContacts e wW st) evsW \<noteq> [] \<longrightarrow> sheetWrite wW = Some msgW \<longrightarrow>
      runSync e wW st = (SyncFailed msgW (now wW), st))
 \<and> (fst (runSync e w st) = SyncFailed msg ts \<longrightarrow> snd (runSync e w st) = st)
 \<and> (authorize wR = None \<longrightarrow> getCalendarEvents (calendarResponse wR) = Inr evsR \<longrightarrow>
      sheetRead wR = Some msgR \<longrightarrow> sheetWrite wR = None \<longrightarrow>
      getSheetContacts e wR st = [] \<and>
      fst (runSync e wR st) =
        SyncCompleted (length (processEvents e wR [] evsR)) (length evsR) (now wR))"
proof (intro conjI impI)
  assume "authorize wF = None" "calendarResponse wF = Inl msgF"
  then show "runSync e wF st = (SyncFailed msgF (now wF), st)"
    by (simp add: runSync_def getCalendarEvents_def)
next
  assume "authorize wW = None" "getCalendarEvents (calendarResponse wW) = Inr evsW"
    "processEvents e wW (getSheetContacts e wW st) evsW \<noteq> []" "sheetWrite wW = Some msgW"
  then show "runSync e wW st = (SyncFailed msgW (now wW), st)"
    by (simp add: runSync_def updateSheetContacts_def Let_def)
next
  assume "fst (runSync e w st) = SyncFailed msg ts"
  then show "snd (runSync e w st) = st"
    by (auto simp: runSync_def updateSheetContacts_def Let_def
             split: option.splits sum.splits if_splits)
next
  assume "authorize wR = None" "getCalendarEvents (calendarResponse wR) = Inr evsR"
    "sheetRead wR = Some msgR" "sheetWrite wR = None"
  then show "getSheetContacts e wR st = []"
    by (simp add: getSheetContacts_def)
next
  assume "authorize wR = None" "getCalendarEvents (calendarResponse wR) = Inr evsR"
    "sheetRead wR = Some msgR" "sheetWrite wR = None"
  then show "fst (runSync e wR st) =
        SyncCompleted (length (processEvents e wR [] evsR)) (length evsR) (now wR)"
    by (simp add: runSync_def getSheetContacts_def updateSheetContacts_def Let_def)
qed


section \<open>Concrete runs\<close>

text \<open>
  C2, as stated, fails on the code: a store that holds a contact with an excluded email
  still holds it after a run that processes no contact, since such a run does not write
  the contact rows.
\<close>

theorem excluded_contact_survives_counterexample:
  "shouldSkipEmail demoEnv ''fred@fireflies.ai'' \<and>
   runSync demoEnv (demoWorld\<lparr>calendarResponse := Inr []\<rparr>)
     \<lparr>rows = [headerRow, fredRow], syncCell = []\<rparr> =
     (SyncCompleted 0 0 ''2024-05-08T00:00:00.000Z'',
      \<lparr>rows = [headerRow, fredRow], syncCell = ''2024-05-08T00:00:00.000Z''\<rparr>) \<and>
   storeEmails \<lparr>rows = [headerRow, fredRow], syncCell = ''2024-05-08T00:00:00.000Z''\<rparr> =
     [''fred@fireflies.ai'']"
  by code_simp

theorem excluded_emails_never_written_witness:
  "shouldSkipEmail demoEnv ''fred@fireflies.ai'' \<and>
   ''fred@fireflies.ai'' \<in> set (storeEmails (snd (runSync demoEnv
        (demoWorld\<lparr>calendarResponse := Inr []\<rparr>) \<lparr>rows = [headerRow, fredRow], syncCell = []\<rparr>))) \<and>
   rows (snd (runSync demoEnv (demoWorld\<lparr>calendarResponse := Inr []\<rparr>)
        \<lparr>rows = [headerRow, fredRow], syncCell = []\<rparr>)) =
     rows \<lparr>rows = [headerRow, fredRow], syncCell = []\<rparr>"
proof -
  let ?w = "demoWorld\<lparr>calendarResponse := Inr []\<rparr>"
  let ?st = "\<lparr>rows = [headerRow, fredRow], syncCell = []\<rparr>"
  have h1: "runSync demoEnv ?w ?st = (fst (runSync demoEnv ?w ?st), snd (runSync demoEnv ?w ?st))"
    by simp
  have h2: "''fred@fireflies.ai'' \<in> set (storeEmails (snd (runSync demoEnv ?w ?st)))"
    by code_simp
  have h3: "shouldSkipEmail demoEnv ''fred@fireflies.ai''"
    by code_simp
  have "rows (snd (runSync demoEnv ?w ?st)) = rows ?st"
    using h1 h2 h3 by (rule excluded_emails_never_written)
  then show ?thesis using h2 h3 by blast
qed







text \<open>
  C6, as stated, fails on the code: with the store read raising, the run returns a
  success summary, and the store it writes is built from no existing contact.
\<close>

theorem read_failure_not_fatal_counterexample:
  "runSync demoEnv (demoWorld\<lparr>sheetRead := Some ''Unable to parse range: Contacts!A:G''\<rparr>) demoStore =
     (SyncCompleted 1 2 ''2024-05-08T00:00:00.000Z'',
      \<lparr>rows = [headerRow,
         [''Jane'', ''jane@acmeventures.com'', ''Interested'', ''Send data room'', ''Liked the deck'',
          ''2024-05-07T15:00:00Z'', ''2024-05-08T00:00:00.000Z'']],
       syncCell = ''2024-05-08T00:00:00.000Z''\<rparr>)"
  by code_simp

theorem failures_of_a_run_witness:
  "runSync demoEnv (demoWorld\<lparr>calendarResponse := Inl ''Not Found''\<rparr>) demoStore =
     (SyncFailed ''Not Found'' ''2024-05-08T00:00:00.000Z'', demoStore) \<and>
   runSync demoEnv (demoWorld\<lparr>sheetWrite := Some ''The service is currently unavailable.''\<rparr>) demoStore =
     (SyncFailed ''The service is currently unavailable.'' ''2024-05-08T00:00:00.000Z'', demoStore) \<and>
   snd (runSync demoEnv (demoWorld\<lparr>authorize := Some ''invalid_grant''\<rparr>) demoStore) = demoStore \<and>
   getSheetContacts demoEnv (demoWorld\<lparr>sheetRead := Some ''Unable to parse range: Contacts!A:G''\<rparr>)
     demoStore = [] \<and>
   fst (runSync demoEnv (demoWorld\<lparr>sheetRead := Some ''Unable to parse range: Contacts!A:G''\<rparr>)
     demoStore) = SyncCompleted 1 2 ''2024-05-08T00:00:00.000Z''"
proof -
  let ?wF = "demoWorld\<lparr>calendarResponse := Inl ''Not Found''\<rparr>"
  let ?wW = "demoWorld\<lparr>sheetWrite := Some ''The service is currently unavailable.''\<rparr>"
  let ?wA = "demoWorld\<lparr>authorize := Some ''invalid_grant''\<rparr>"
  let ?wR = "demoWorld\<lparr>sheetRead := Some ''Unable to parse range: Contacts!A:G''\<rparr>"
  note t = failures_of_a_run [of ?wF "''Not Found''" demoEnv demoStore ?wW "[introCall, followUp]"
      "''The service is currently unavailable.''" ?wA "''invalid_grant''"
      "''2024-05-08T00:00:00.000Z''" ?wR "[introCall, followUp]"
      "''Unable to parse range: Contacts!A:G''"]
  have f1: "authorize ?wF = None" and f2: "calendarResponse ?wF = Inl ''Not Found''"
    by code_simp+
  have w1: "authorize ?wW = None"
    and w2: "getCalendarEvents (calendarResponse ?wW) = Inr [introCall, followUp]"
    and w3: "processEvents demoEnv ?wW (getSheetContacts demoEnv ?wW demoStore) [introCall, followUp] \<noteq> []"
    and w4: "sheetWrite ?wW = Some ''The service is currently unavailable.''"
    by code_simp+
  have a1: "fst (runSync demoEnv ?wA demoStore) = SyncFailed ''invalid_grant'' ''2024-05-08T00:00:00.000Z''"
    by code_simp
  have r1: "authorize ?wR = None"
    and r2: "getCalendarEvents (calendarResponse ?wR) = Inr [introCall, followUp]"
    and r3: "sheetRead ?wR = Some ''Unable to parse range: Contacts!A:G''"
    and r4: "sheetWrite ?wR = None"
    by code_simp+
  have n: "now ?wF = ''2024-05-08T00:00:00.000Z''" "now ?wW = ''2024-05-08T00:00:00.000Z''"
    "now ?wR = ''2024-05-08T00:00:00.000Z''"
    by code_simp+
  have l: "length (processEvents demoEnv ?wR [] [introCall, followUp]) = 1"
    by code_simp
  have c1: "runSync demoEnv ?wF demoStore = (SyncFailed ''Not Found'' (now ?wF), demoStore)"
    using t f1 f2 by blast
  have c2: "runSync demoEnv ?wW demoStore =
      (SyncFailed ''The service is currently unavailable.'' (now ?wW), demoStore)"
    using t w1 w2 w3 w4 by blast
  have c3: "snd (runSync demoEnv ?wA demoStore) = demoStore"
    using t a1 by blast
  have c4: "getSheetContacts demoEnv ?wR demoStore = []"
    and c5: "fst (runSync demoEnv ?wR demoStore) =
      SyncCompleted (length (processEvents demoEnv ?wR [] [introCall, followUp]))
        (length [introCall, followUp]) (now ?wR)"
    using t r1 r2 r3 r4 by blast+
  show ?thesis
    using c1 c2 c3 c4 c5 by (simp add: n l)
qed

end
